theory Spec2Isabelle
  imports Complex_Main "HOL-Library.Sublist"
begin

section \<open>SGNL content extractor (app/extractor.py)\<close>

text \<open>
  Conventions of the embedding.
  \<^item> A Python \<open>str\<close> is a \<open>string\<close>; a \<open>char\<close> stands for a code point below 256.
  \<^item> A Python \<open>float\<close> is a \<open>real\<close> and its arithmetic is exact. The density combiner,
    about which an exact equality is claimed, has the rounding of its arithmetic as a
    parameter, so that it can be read in exact arithmetic and in binary64.
  \<^item> A call that may raise has the type \<open>'a result\<close>: \<open>Inl msg\<close> is an exception \<open>e\<close>
    (an instance of \<open>Exception\<close>) with \<open>str(e) = msg\<close>, \<open>Inr v\<close> is a normal return.
  \<^item> Library code that is not part of the repository (the HTTP client, trafilatura,
    ideadensity, textstat, the process environment) is a parameter of the model.
\<close>

type_synonym 'a result = "string + 'a"

subsection \<open>Python string primitives\<close>

text \<open>\<open>str.isspace\<close> on one code point below 256.\<close>

definition py_isspace :: "char \<Rightarrow> bool" where
  "py_isspace c = (of_char c \<in> {9, 10, 11, 12, 13, 28, 29, 30, 31, 32, 133, 160 :: nat})"

definition py_isdigit :: "char \<Rightarrow> bool" where
  "py_isdigit c = (48 \<le> (of_char c :: nat) \<and> (of_char c :: nat) \<le> 57)"

definition is_ascii_alpha :: "char \<Rightarrow> bool" where
  "is_ascii_alpha c = (let n = (of_char c :: nat) in (65 \<le> n \<and> n \<le> 90) \<or> (97 \<le> n \<and> n \<le> 122))"

text \<open>\<open>str.lower\<close> on one code point below 256: A-Z and the upper-case letters of Latin-1.\<close>

definition py_lower_char :: "char \<Rightarrow> char" where
  "py_lower_char c =
     (let n = (of_char c :: nat) in
      if (65 \<le> n \<and> n \<le> 90) \<or> (192 \<le> n \<and> n \<le> 222 \<and> n \<noteq> 215) then char_of (n + 32) else c)"

definition py_lower :: "string \<Rightarrow> string" where
  "py_lower s = map py_lower_char s"

text \<open>\<open>str.strip()\<close>: white space removed at both ends.\<close>

definition py_strip :: "string \<Rightarrow> string" where
  "py_strip s = rev (dropWhile py_isspace (rev (dropWhile py_isspace s)))"

text \<open>\<open>str.split()\<close>: the maximal runs of non-space characters, in order.\<close>

fun py_split_acc :: "string \<Rightarrow> string \<Rightarrow> string list" where
  "py_split_acc w [] = (if w = [] then [] else [w])"
| "py_split_acc w (c # cs) =
     (if py_isspace c then (if w = [] then py_split_acc [] cs else w # py_split_acc [] cs)
      else py_split_acc (w @ [c]) cs)"

definition py_split :: "string \<Rightarrow> string list" where
  "py_split s = py_split_acc [] s"

text \<open>\<open>sub in s\<close> on strings.\<close>

fun py_contains :: "string \<Rightarrow> string \<Rightarrow> bool" where
  "py_contains sub [] = (sub = [])"
| "py_contains sub (c # cs) = (prefix sub (c # cs) \<or> py_contains sub cs)"

text \<open>\<open>s.replace(old, new)\<close>: every occurrence, left to right, without overlap.\<close>

function replace_nonempty :: "string \<Rightarrow> string \<Rightarrow> string \<Rightarrow> string" where
  "replace_nonempty old new [] = []"
| "replace_nonempty old new (c # cs) =
     (if prefix old (c # cs) then new @ replace_nonempty old new (drop (length old - 1) cs)
      else c # replace_nonempty old new cs)"
  by pat_completeness auto
termination
  by (relation "measure (\<lambda>(old, new, s). length s)") auto

definition py_replace :: "string \<Rightarrow> string \<Rightarrow> string \<Rightarrow> string" where
  "py_replace old new s =
     (if old = [] then new @ concat (map (\<lambda>c. c # new) s) else replace_nonempty old new s)"

subsection \<open>urllib.parse.urlparse, the \<open>netloc\<close> component\<close>

text \<open>
  The standard library's \<open>urlsplit\<close>, as far as it decides \<open>netloc\<close>: leading C0 control
  characters and spaces are stripped, tab, CR and LF are removed, a scheme is split off at
  the first colon when everything before it is a scheme, and only a remainder that starts
  with two slashes has a network location, which ends at the first of \<open>/ ? #\<close>.
  A bracket without its partner raises \<open>ValueError\<close>. The validation of a bracketed host
  (newer versions of the library) is the parameter \<open>valid_host\<close>. The NFKC check of a
  non-ASCII \<open>netloc\<close> never raises on code points below 256.
\<close>

definition scheme_char :: "char \<Rightarrow> bool" where
  "scheme_char c = (is_ascii_alpha c \<or> py_isdigit c \<or> c \<in> set ''+-.'')"

definition split_scheme :: "string \<Rightarrow> string" where
  "split_scheme url =
     (let pre = takeWhile (\<lambda>c. c \<noteq> CHR '':'') url; i = length pre in
      if i < length url \<and> 0 < i \<and> is_ascii_alpha (hd url) \<and> list_all scheme_char pre
      then drop (i + 1) url else url)"

definition urlparse_netloc :: "(string \<Rightarrow> bool) \<Rightarrow> string \<Rightarrow> string result" where
  "urlparse_netloc valid_host url0 =
     (let url = dropWhile (\<lambda>c. (of_char c :: nat) \<le> 32) url0;
          url = filter (\<lambda>c. (of_char c :: nat) \<notin> {9, 13, 10}) url;
          url = split_scheme url
      in if take 2 url = ''//'' then
           (let netloc = takeWhile (\<lambda>c. c \<notin> set ''/?#'') (drop 2 url);
                lb = CHR ''['' \<in> set netloc; rb = CHR '']'' \<in> set netloc
            in if (lb \<and> \<not> rb) \<or> (rb \<and> \<not> lb) then Inl ''Invalid IPv6 URL''
               else if lb \<and> rb \<and>
                 \<not> valid_host (takeWhile (\<lambda>c. c \<noteq> CHR '']'')
                                  (drop 1 (dropWhile (\<lambda>c. c \<noteq> CHR ''['') netloc)))
               then Inl ''Invalid bracketed host''
               else Inr netloc)
         else Inr '''')"

subsection \<open>ContentExtractor._extract_domain\<close>

definition extract_domain :: "(string \<Rightarrow> bool) \<Rightarrow> string \<Rightarrow> string" where
  "extract_domain valid_host url =
     (case urlparse_netloc valid_host url of
        Inr netloc \<Rightarrow> py_replace ''www.'' '''' netloc
      | Inl e \<Rightarrow> ''unknown'')"

subsection \<open>Module re: the patterns the extractor uses\<close>

text \<open>
  The fragment of Python's regular expressions that occurs in the source: literal text,
  the classes \<open>\d\<close>, \<open>\s\<close> and \<open>[^c]\<close>, a greedy bounded or unbounded repetition of one
  class, concatenation and ordered alternation. \<open>rml ic r s\<close> lists the lengths of the
  matches of \<open>r\<close> at the start of \<open>s\<close> in the order in which the backtracking matcher
  tries them; \<open>ic\<close> is the flag \<open>re.I\<close>.
\<close>

datatype atom = Chr char | Digit | Space | NotChr char

datatype regex =
    Str string
  | One atom
  | Rep atom nat "nat option"
  | Cat regex regex
  | Alt regex regex

fun atom_ok :: "bool \<Rightarrow> atom \<Rightarrow> char \<Rightarrow> bool" where
  "atom_ok ic (Chr x) c = (if ic then py_lower_char c = py_lower_char x else c = x)"
| "atom_ok ic Digit c = py_isdigit c"
| "atom_ok ic Space c = py_isspace c"
| "atom_ok ic (NotChr x) c = (if ic then py_lower_char c \<noteq> py_lower_char x else c \<noteq> x)"

fun rml :: "bool \<Rightarrow> regex \<Rightarrow> string \<Rightarrow> nat list" where
  "rml ic (Str p) s =
     (if length p \<le> length s \<and> list_all2 (\<lambda>x c. atom_ok ic (Chr x) c) p (take (length p) s)
      then [length p] else [])"
| "rml ic (One a) s = (case s of [] \<Rightarrow> [] | c # cs \<Rightarrow> if atom_ok ic a c then [1] else [])"
| "rml ic (Rep a m n) s =
     (let run = length (takeWhile (atom_ok ic a) s);
          hi = (case n of None \<Rightarrow> run | Some k \<Rightarrow> min k run)
      in rev [m..<Suc hi])"
| "rml ic (Cat r1 r2) s =
     concat (map (\<lambda>k1. map (\<lambda>k2. k1 + k2) (rml ic r2 (drop k1 s))) (rml ic r1 s))"
| "rml ic (Alt r1 r2) s = rml ic r1 s @ rml ic r2 s"

text \<open>\<open>re.search(r, s)\<close> as a truth value: some position of \<open>s\<close> starts a match.\<close>

fun re_search :: "bool \<Rightarrow> regex \<Rightarrow> string \<Rightarrow> bool" where
  "re_search ic r [] = (rml ic r [] \<noteq> [])"
| "re_search ic r (c # cs) = (rml ic r (c # cs) \<noteq> [] \<or> re_search ic r cs)"

text \<open>
  \<open>len(re.findall(r, s))\<close> for a pattern without groups: the matches are taken left to
  right and do not overlap; the scan resumes where the match the matcher prefers has ended.
\<close>

function findall_count :: "bool \<Rightarrow> regex \<Rightarrow> string \<Rightarrow> nat" where
  "findall_count ic r [] = (if rml ic r [] \<noteq> [] then 1 else 0)"
| "findall_count ic r (c # cs) =
     (case rml ic r (c # cs) of
        [] \<Rightarrow> findall_count ic r cs
      | k # ks \<Rightarrow> Suc (findall_count ic r (drop (k - 1) cs)))"
  by pat_completeness auto
termination
  by (relation "measure (\<lambda>(ic, r, s). length s)") auto

subsection \<open>ContentExtractor: class constants\<close>

definition HIGH_TRUST_DOMAINS :: "(string \<times> real) list" where
  "HIGH_TRUST_DOMAINS =
     [(''arxiv.org'', 1.15), (''github.com'', 1.10), (''openai.com'', 1.12),
      (''deepmind.com'', 1.12), (''research.google'', 1.12), (''anthropic.com'', 1.10),
      (''huggingface.co'', 1.08), (''pytorch.org'', 1.08), (''tensorflow.org'', 1.08),
      (''nature.com'', 1.15), (''science.org'', 1.15), (''acm.org'', 1.10),
      (''ieee.org'', 1.10), (''distill.pub'', 1.15), (''lilianweng.github.io'', 1.12),
      (''colah.github.io'', 1.12), (''karpathy.github.io'', 1.12),
      (''martin.kleppmann.com'', 1.10), (''jvns.ca'', 1.08), (''rachelbythebay.com'', 1.08),
      (''danluu.com'', 1.10), (''brandur.org'', 1.08)]"

definition ws1 :: regex where
  "ws1 = Rep Space 1 None"

definition phrase :: "string list \<Rightarrow> regex" where
  "phrase ws = foldr (\<lambda>w r. Cat (Str w) (Cat ws1 r)) (butlast ws) (Str (last ws))"

definition SPAM_PATTERNS :: "regex list" where
  "SPAM_PATTERNS =
     [phrase [''subscribe'', ''to'', ''our'', ''newsletter''],
      phrase [''sign'', ''up'', ''for'', ''free''],
      phrase [''limited'', ''time'', ''offer''],
      phrase [''click'', ''here'', ''to'', ''buy''],
      phrase [''affiliate'', ''link''],
      phrase [''sponsored'', ''content''],
      phrase [''you'', [CHR ''w'', CHR ''o'', CHR ''n'', CHR 0x27, CHR ''t''], ''believe''],
      Str ''shocking'',
      phrase [''this'', ''one'', ''trick'']]"

text \<open>\<^verbatim>\<open>```|`[^`]+`|def |class |function |const |import \<close>\<close>

definition code_re :: regex where
  "code_re =
     Alt (Str [CHR 0x60, CHR 0x60, CHR 0x60])
    (Alt (Cat (One (Chr (CHR 0x60))) (Cat (Rep (NotChr (CHR 0x60)) 1 None) (One (Chr (CHR 0x60)))))
    (Alt (Str ''def '') (Alt (Str ''class '') (Alt (Str ''function '')
    (Alt (Str ''const '') (Str ''import ''))))))"

text \<open>\<^verbatim>\<open>\[\d+\]|arxiv\.|doi\.org|et al\.|figure \d|table \d\<close>, with \<open>re.I\<close>\<close>

definition ref_re :: regex where
  "ref_re =
     Alt (Cat (Str ''['') (Cat (Rep Digit 1 None) (Str '']'')))
    (Alt (Str ''arxiv.'') (Alt (Str ''doi.org'') (Alt (Str ''et al.'')
    (Alt (Cat (Str ''figure '') (One Digit)) (Cat (Str ''table '') (One Digit))))))"

text \<open>\<^verbatim>\<open>\n#{1,3}\s|\n\*\s|\n\d+\.\s|\n-\s\<close>\<close>

definition structural_re :: regex where
  "structural_re =
     Alt (Cat (One (Chr (CHR 0x0A))) (Cat (Rep (Chr (CHR ''#'')) 1 (Some 3)) (One Space)))
    (Alt (Cat (Str [CHR 0x0A, CHR ''*'']) (One Space))
    (Alt (Cat (One (Chr (CHR 0x0A))) (Cat (Rep Digit 1 None) (Cat (Str ''.'') (One Space))))
         (Cat (Str [CHR 0x0A, CHR ''-'']) (One Space))))"

subsection \<open>ContentExtractor._calculate_signal_score\<close>

text \<open>Python's \<open>a / b\<close> on numbers raises \<open>ZeroDivisionError\<close> when \<open>b\<close> is zero.\<close>

definition py_truediv :: "real \<Rightarrow> real \<Rightarrow> real result" where
  "py_truediv a b = (if b = 0 then Inl ''division by zero'' else Inr (a / b))"

text \<open>Factor 1, content length: exactly one of the six branches changes the score.\<close>

definition factor1_length :: "string \<Rightarrow> real \<Rightarrow> real" where
  "factor1_length content score =
     (let word_count = length (py_split content) in
      if word_count < 200 then score - 0.15
      else if word_count < 500 then score - 0.05
      else if word_count < 1000 then score + 0.05
      else if word_count < 3000 then score + 0.10
      else if word_count < 5000 then score + 0.12
      else score + 0.15)"

text \<open>
  Factor 2, domain reputation: the loop over \<open>HIGH_TRUST_DOMAINS.items()\<close>, in the order
  of the declaration, with its \<open>break\<close> after the first entry found in the domain.
\<close>

fun domain_loop :: "(string \<times> real) list \<Rightarrow> string \<Rightarrow> real \<Rightarrow> real" where
  "domain_loop [] domain score = score"
| "domain_loop ((trusted_domain, boost) # rest) domain score =
     (if py_contains trusted_domain domain then score * boost
      else domain_loop rest domain score)"

definition factor2_domain :: "(string \<Rightarrow> bool) \<Rightarrow> string \<Rightarrow> real \<Rightarrow> real" where
  "factor2_domain valid_host url score =
     domain_loop HIGH_TRUST_DOMAINS (extract_domain valid_host url) score"

text \<open>Factor 3, code block density.\<close>

definition factor3_code :: "string \<Rightarrow> real \<Rightarrow> real" where
  "factor3_code content score =
     (let code_indicators = findall_count False code_re content in
      if code_indicators > 0 then score + min 0.15 (real code_indicators * 0.02) else score)"

text \<open>Factor 4, reference density.\<close>

definition factor4_refs :: "string \<Rightarrow> real \<Rightarrow> real" where
  "factor4_refs content score =
     (let ref_indicators = findall_count True ref_re content in
      if ref_indicators > 0 then score + min 0.10 (real ref_indicators * 0.015) else score)"

text \<open>Factor 5, spam patterns: each pattern counts once.\<close>

definition factor5_spam :: "string \<Rightarrow> real \<Rightarrow> real" where
  "factor5_spam content score =
     (let spam_count = length (filter (\<lambda>pattern. re_search True pattern content) SPAM_PATTERNS) in
      if spam_count > 0 then score - real spam_count * 0.10 else score)"

text \<open>Factor 6, unique word ratio; the division is guarded by \<open>if words\<close>.\<close>

definition factor6_vocab :: "string \<Rightarrow> real \<Rightarrow> real result" where
  "factor6_vocab content score =
     (let words = py_split (py_lower content) in
      if words \<noteq> [] then
        (case py_truediv (real (card (set words))) (real (length words)) of
           Inl e \<Rightarrow> Inl e
         | Inr unique_ratio \<Rightarrow>
             Inr (if unique_ratio > 0.5 then score + 0.05
                  else if unique_ratio < 0.3 then score - 0.05
                  else score))
      else Inr score)"

text \<open>Factor 7, structural indicators.\<close>

definition factor7_structure :: "string \<Rightarrow> real \<Rightarrow> real" where
  "factor7_structure content score =
     (let structural_patterns = findall_count False structural_re content in
      if structural_patterns > 3 then score + 0.05 else score)"

text \<open>The running score after each of the first two factors.\<close>

definition score_after_length :: "string \<Rightarrow> real" where
  "score_after_length content = factor1_length content 0.5"

definition score_after_domain :: "(string \<Rightarrow> bool) \<Rightarrow> string \<Rightarrow> string \<Rightarrow> real" where
  "score_after_domain valid_host content url =
     factor2_domain valid_host url (score_after_length content)"

text \<open>The whole function; the parameter \<open>title\<close> is not used by the source either.\<close>

definition calculate_signal_score ::
    "(string \<Rightarrow> bool) \<Rightarrow> string \<Rightarrow> string \<Rightarrow> string \<Rightarrow> real result" where
  "calculate_signal_score valid_host content url title =
     (let score = 0.5;
          score = factor1_length content score;
          score = factor2_domain valid_host url score;
          score = factor3_code content score;
          score = factor4_refs content score;
          score = factor5_spam content score
      in case factor6_vocab content score of
           Inl e \<Rightarrow> Inl e
         | Inr score \<Rightarrow>
             (let score = factor7_structure content score
              in Inr (max 0.0 (min 1.0 score))))"

subsection \<open>Module state and external libraries\<close>

text \<open>
  What the module reads but does not define. \<open>environ name\<close> is \<open>None\<close> when the variable
  is unset, \<open>Some (Inr x)\<close> when \<open>float\<close> of its text is the finite number \<open>x\<close> and
  \<open>Some (Inl msg)\<close> when \<open>float\<close> of its text raises. \<open>http_get\<close> is the request of
  \<open>_fetch_page\<close> together with \<open>raise_for_status\<close>. The metadata that
  \<open>trafilatura.extract_metadata\<close> returns is represented by its \<open>title\<close> attribute.
\<close>

record textstat_lib =
  set_lang :: "string \<Rightarrow> unit result"
  flesch_reading_ease :: "string \<Rightarrow> real result"
  flesch_kincaid_grade :: "string \<Rightarrow> real result"
  gunning_fog :: "string \<Rightarrow> real result"
  automated_readability_index :: "string \<Rightarrow> real result"
  coleman_liau_index :: "string \<Rightarrow> real result"

record runtime =
  IDEADENSITY_AVAILABLE :: bool
  cpidr :: "string \<Rightarrow> real result"
  depid :: "(string \<Rightarrow> bool \<Rightarrow> (real \<times> nat \<times> string list) result) option"
  TEXTSTAT_AVAILABLE :: bool
  textstat :: "textstat_lib option"
  environ :: "string \<Rightarrow> real result option"
  http_get :: "string \<Rightarrow> string result"
  trafilatura_extract :: "string \<Rightarrow> string option result"
  trafilatura_extract_metadata :: "string \<Rightarrow> string option option result"
  check_bracketed_host :: "string \<Rightarrow> bool"

text \<open>Sequencing of calls that may raise: the first exception ends the computation.\<close>

definition and_then :: "'a result \<Rightarrow> ('a \<Rightarrow> 'b result) \<Rightarrow> 'b result" where
  "and_then m f = (case m of Inl e \<Rightarrow> Inl e | Inr v \<Rightarrow> f v)"

text \<open>\<open>float(os.getenv(name, default))\<close>\<close>

definition getenv_float :: "runtime \<Rightarrow> string \<Rightarrow> real \<Rightarrow> real result" where
  "getenv_float rt name dflt = (case environ rt name of None \<Rightarrow> Inr dflt | Some r \<Rightarrow> r)"

subsection \<open>Metric adapters\<close>

definition calculate_density :: "runtime \<Rightarrow> string \<Rightarrow> real" where
  "calculate_density rt text =
     (if text = [] \<or> length (py_strip text) < 50 then 0.0
      else if \<not> IDEADENSITY_AVAILABLE rt then 0.5
      else case cpidr rt text of
             Inr density \<Rightarrow> max 0.0 (min 1.0 density)
           | Inl e \<Rightarrow> 0.5)"

definition calculate_depid_density :: "runtime \<Rightarrow> string \<Rightarrow> real option" where
  "calculate_depid_density rt text =
     (if text = [] \<or> length (py_strip text) < 50 then None
      else if \<not> IDEADENSITY_AVAILABLE rt \<or> depid rt = None then None
      else case the (depid rt) text True of
             Inr (density, word_count, dependencies) \<Rightarrow> Some (max 0.0 (min 1.0 density))
           | Inl e \<Rightarrow> None)"

definition calculate_readability_scores :: "runtime \<Rightarrow> string \<Rightarrow> (string \<times> real) list" where
  "calculate_readability_scores rt text =
     (if text = [] \<or> length (py_strip text) < 50 then []
      else if \<not> TEXTSTAT_AVAILABLE rt \<or> textstat rt = None then []
      else
        (let ts = the (textstat rt) in
         case and_then (set_lang ts ''en'') (\<lambda>u.
              and_then (flesch_reading_ease ts text) (\<lambda>a.
              and_then (flesch_kincaid_grade ts text) (\<lambda>b.
              and_then (gunning_fog ts text) (\<lambda>c.
              and_then (automated_readability_index ts text) (\<lambda>d.
              and_then (coleman_liau_index ts text) (\<lambda>e.
              Inr [(''flesch_reading_ease'', a), (''flesch_kincaid_grade'', b),
                   (''gunning_fog'', c), (''automated_readability_index'', d),
                   (''coleman_liau_index'', e)])))))) of
           Inr scores \<Rightarrow> scores
         | Inl e \<Rightarrow> []))"

subsection \<open>Float arithmetic\<close>

text \<open>
  A Python \<open>float\<close> is an IEEE 754 binary64 number: every decimal literal and every
  arithmetic operation gives the exact value rounded to the nearest number with a
  significand of 53 bits, a tie going to the even significand. \<open>binary64\<close> is this
  rounding in the normal range (overflow, subnormal numbers, infinities and NaN are not
  modelled). \<open>normalise\<close> scales a magnitude into the interval from \<open>2^52\<close> to \<open>2^53\<close>, where
  the representable numbers are the integers; its first argument bounds the number of
  steps and 2200 is enough for every binary64 number.
\<close>

definition round_half_even :: "real \<Rightarrow> int" where
  "round_half_even x =
     (let f = \<lfloor>x\<rfloor>; d = x - of_int f in
      if d < 1 / 2 then f else if d > 1 / 2 then f + 1 else if even f then f else f + 1)"

fun normalise :: "nat \<Rightarrow> real \<Rightarrow> real \<Rightarrow> real \<times> real" where
  "normalise 0 m u = (m, u)"
| "normalise (Suc n) m u =
     (if 2 ^ 53 \<le> m then normalise n (m / 2) (u * 2)
      else if m < 2 ^ 52 then normalise n (m * 2) (u / 2)
      else (m, u))"

definition binary64 :: "real \<Rightarrow> real" where
  "binary64 x =
     (if x = 0 then 0
      else (let (m, u) = normalise 2200 \<bar>x\<bar> 1 in sgn x * of_int (round_half_even m) * u))"

text \<open>Exact arithmetic: nothing is rounded.\<close>

definition exact :: "real \<Rightarrow> real" where
  "exact x = x"

subsection \<open>Density combiner\<close>

text \<open>
  The function of the source with the rounding of its arithmetic as the parameter \<open>fl\<close>,
  applied to every decimal literal and to the result of every operation on floats
  (\<open>max\<close>, \<open>min\<close> and the comparisons are exact). The weights read from the environment
  are floats already, and so are the arguments.
\<close>

definition calculate_combined_density_fl ::
    "(real \<Rightarrow> real) \<Rightarrow> runtime \<Rightarrow> real \<Rightarrow> real option \<Rightarrow> (string \<times> real) list \<Rightarrow> real result"
  where
  "calculate_combined_density_fl fl rt cpidr_density depid_density readability =
     and_then (getenv_float rt ''CPIDR_WEIGHT'' (fl 0.5)) (\<lambda>cpidr_weight.
     and_then (getenv_float rt ''DEPID_WEIGHT'' (fl 0.3)) (\<lambda>depid_weight.
     and_then (getenv_float rt ''READABILITY_WEIGHT'' (fl 0.2)) (\<lambda>readability_weight.
       (let total_weight = fl (fl (cpidr_weight + depid_weight) + readability_weight);
            combined = fl (cpidr_density * cpidr_weight);
            (combined, total_weight) =
               (case depid_density of
                  Some d \<Rightarrow> (fl (combined + fl (d * depid_weight)), total_weight)
                | None \<Rightarrow> (combined, fl (total_weight - depid_weight)));
            (combined, total_weight) =
               (case (if readability \<noteq> [] then map_of readability ''flesch_reading_ease''
                      else None) of
                  Some flesch_ease \<Rightarrow>
                    (let reading_difficulty = max 0 (min 1 (fl (fl (90 - flesch_ease) / 90)))
                     in (fl (combined + fl (reading_difficulty * readability_weight)),
                         total_weight))
                | None \<Rightarrow> (combined, fl (total_weight - readability_weight)))
        in if total_weight > 0 then Inr (max 0.0 (min 1.0 (fl (combined / total_weight))))
           else Inr cpidr_density))))"

text \<open>The combiner in exact arithmetic, the reading used where rounding does not matter.\<close>

definition calculate_combined_density ::
    "runtime \<Rightarrow> real \<Rightarrow> real option \<Rightarrow> (string \<times> real) list \<Rightarrow> real result" where
  "calculate_combined_density rt cpidr_density depid_density readability =
     calculate_combined_density_fl exact rt cpidr_density depid_density readability"

subsection \<open>The report returned to the caller\<close>

text \<open>A report is a Python \<open>dict\<close> with string keys, in the order of its literal.\<close>

datatype pyval =
    PStr string
  | PInt int
  | PFloat real
  | PNone
  | PDict "(string \<times> real) list"

type_synonym report = "(string \<times> pyval) list"

definition keys :: "report \<Rightarrow> string list" where
  "keys r = map fst r"

text \<open>\<open>round(x, n)\<close>: to \<open>n\<close> decimals, a tie going to the even neighbour.\<close>

definition py_round :: "real \<Rightarrow> nat \<Rightarrow> real" where
  "py_round x n = of_int (round_half_even (x * 10 ^ n)) / 10 ^ n"

subsection \<open>ContentExtractor._error_response\<close>

definition error_response :: "(string \<Rightarrow> bool) \<Rightarrow> string \<Rightarrow> string \<Rightarrow> report" where
  "error_response valid_host url error =
     [(''url'', PStr url),
      (''title'', PStr ''Extraction Failed''),
      (''content'', PStr (''Error: '' @ error)),
      (''source'', PStr (extract_domain valid_host url)),
      (''length'', PInt 0),
      (''signal_score'', PFloat 0.0),
      (''density_score'', PFloat 0.0),
      (''error'', PStr error)]"

subsection \<open>ContentExtractor._extract_title_fallback\<close>

text \<open>
  \<^verbatim>\<open><title[^>]*>([^<]+)</title>\<close> with \<open>re.I\<close>: the text of group 1 for the first way in which
  the three parts of the pattern match at the start of \<open>s\<close>, then for the leftmost start.
\<close>

definition title_match_at :: "string \<Rightarrow> string option" where
  "title_match_at s =
     (case [take k2 (drop k1 s).
              k1 \<leftarrow> rml True (Cat (Str ''<title'')
                                (Cat (Rep (NotChr (CHR ''>'')) 0 None) (Str ''>''))) s,
              k2 \<leftarrow> rml True (Rep (NotChr (CHR ''<'')) 1 None) (drop k1 s),
              k3 \<leftarrow> rml True (Str ''</title>'') (drop (k1 + k2) s)] of
        [] \<Rightarrow> None
      | g # gs \<Rightarrow> Some g)"

fun title_search :: "string \<Rightarrow> string option" where
  "title_search [] = title_match_at []"
| "title_search (c # cs) =
     (case title_match_at (c # cs) of Some g \<Rightarrow> Some g | None \<Rightarrow> title_search cs)"

definition extract_title_fallback :: "string \<Rightarrow> string option" where
  "extract_title_fallback html = map_option py_strip (title_search html)"

subsection \<open>ContentExtractor._fetch_page and extract_from_url\<close>

definition fetch_page :: "runtime \<Rightarrow> string \<Rightarrow> string option" where
  "fetch_page rt url = (case http_get rt url of Inr text \<Rightarrow> Some text | Inl e \<Rightarrow> None)"

text \<open>Python's \<open>x or d\<close> for an optional string: \<open>None\<close> and the empty string are false.\<close>

definition str_or :: "string option \<Rightarrow> string \<Rightarrow> string" where
  "str_or x d = (case x of None \<Rightarrow> d | Some t \<Rightarrow> if t = [] then d else t)"

text \<open>The dictionary built on the successful path.\<close>

definition success_report ::
    "(string \<Rightarrow> bool) \<Rightarrow> string \<Rightarrow> string option \<Rightarrow> string \<Rightarrow> real \<Rightarrow> real \<Rightarrow> real option \<Rightarrow>
     (string \<times> real) list \<Rightarrow> report" where
  "success_report valid_host url title extracted signal_score cpidr_score depid_score
       readability_scores =
     [(''url'', PStr url),
      (''title'', PStr (str_or title ''Untitled'')),
      (''content'', PStr extracted),
      (''source'', PStr (extract_domain valid_host url)),
      (''length'', PInt (int (length extracted))),
      (''signal_score'', PFloat (py_round signal_score 2)),
      (''density_score'', PFloat (py_round cpidr_score 3)),
      (''depid_density'', (case depid_score of None \<Rightarrow> PNone | Some d \<Rightarrow> PFloat (py_round d 3))),
      (''readability_score'', PDict readability_scores)]"

text \<open>
  The body of the \<open>try\<close> statement: \<open>Inl e\<close> is an exception that leaves the body.
  \<open>score_page\<close> is the part of the body after the two early returns.
\<close>

definition score_page :: "runtime \<Rightarrow> string \<Rightarrow> string \<Rightarrow> string \<Rightarrow> report result" where
  "score_page rt url html extracted =
     and_then (trafilatura_extract_metadata rt html) (\<lambda>metadata.
       (let title = (case metadata of Some t \<Rightarrow> t | None \<Rightarrow> extract_title_fallback html) in
        and_then (calculate_signal_score (check_bracketed_host rt) extracted url
                    (str_or title [])) (\<lambda>signal_score.
          (let cpidr_score = calculate_density rt extracted;
               depid_score = calculate_depid_density rt extracted;
               readability_scores = calculate_readability_scores rt extracted in
           and_then (getenv_float rt ''DENSITY_THRESHOLD'' 0.45) (\<lambda>density_threshold.
             and_then (calculate_combined_density rt cpidr_score depid_score
                         readability_scores) (\<lambda>combined_density.
               Inr (success_report (check_bracketed_host rt) url title extracted
                      signal_score cpidr_score depid_score readability_scores)))))))"

definition extract_attempt :: "runtime \<Rightarrow> string \<Rightarrow> report result" where
  "extract_attempt rt url =
     (case fetch_page rt url of
        None \<Rightarrow> Inr (error_response (check_bracketed_host rt) url ''Failed to fetch page'')
      | Some html \<Rightarrow>
          if html = []
          then Inr (error_response (check_bracketed_host rt) url ''Failed to fetch page'')
          else
            and_then (trafilatura_extract rt html) (\<lambda>ex.
              (case ex of
                 None \<Rightarrow>
                   Inr (error_response (check_bracketed_host rt) url ''No content extracted'')
               | Some extracted \<Rightarrow>
                   if extracted = []
                   then Inr (error_response (check_bracketed_host rt) url ''No content extracted'')
                   else score_page rt url html extracted)))"

text \<open>The \<open>try\<close> statement with its handler \<open>except Exception as e\<close>.\<close>

definition extract_from_url :: "runtime \<Rightarrow> string \<Rightarrow> report result" where
  "extract_from_url rt url =
     (case extract_attempt rt url of
        Inr result \<Rightarrow> Inr result
      | Inl e \<Rightarrow> Inr (error_response (check_bracketed_host rt) url e))"

subsection \<open>Well-formed reports\<close>

text \<open>
  What a caller can rely on in either kind of report: the seven fields that the successful
  and the degraded dictionary share, each with a value of its type.
\<close>

definition has_str :: "report \<Rightarrow> string \<Rightarrow> bool" where
  "has_str r k = (case map_of r k of Some (PStr s) \<Rightarrow> True | _ \<Rightarrow> False)"

definition has_int :: "report \<Rightarrow> string \<Rightarrow> bool" where
  "has_int r k = (case map_of r k of Some (PInt n) \<Rightarrow> True | _ \<Rightarrow> False)"

definition has_float :: "report \<Rightarrow> string \<Rightarrow> bool" where
  "has_float r k = (case map_of r k of Some (PFloat x) \<Rightarrow> True | _ \<Rightarrow> False)"

definition well_formed :: "report \<Rightarrow> bool" where
  "well_formed r =
     (has_str r ''url'' \<and> has_str r ''title'' \<and> has_str r ''content'' \<and>
      has_str r ''source'' \<and> has_int r ''length'' \<and> has_float r ''signal_score'' \<and>
      has_float r ''density_score'')"

subsection \<open>Structural analyzer (app/services/analyzer.py)\<close>

text \<open>
  Modelled from the spec: \<open>HeuristicAnalyzer.calculate_structure_score\<close> lives in
  app/services/analyzer.py, which is not among the sources; only its tests are. The
  definition follows section 4.4 of the specification: the length guard, then the parse
  guard, then the checks, whose deltas are added to a base and clamped to 0..100. The
  threshold, the parser, the base, the checks and the wording of the final reason are not
  given by the specification and are the fields of \<open>analyzer\<close>.
\<close>

record structure_report =
  score :: int
  reason :: string
  adjustments :: "(int \<times> string) list"

record 'dom analyzer =
  min_length :: nat
  parse_html :: "string \<Rightarrow> 'dom option"
  base_score :: int
  run_checks :: "'dom \<Rightarrow> string \<Rightarrow> string \<Rightarrow> (int \<times> string) list"
  summarize :: "(int \<times> string) list \<Rightarrow> string"

definition calculate_structure_score ::
    "'dom analyzer \<Rightarrow> string \<Rightarrow> string \<Rightarrow> structure_report" where
  "calculate_structure_score a html topic =
     (if length html < min_length a
      then \<lparr>score = 0, reason = ''Empty or too short content'', adjustments = []\<rparr>
      else case parse_html a html of
             None \<Rightarrow> \<lparr>score = 30, reason = ''Failed to parse HTML'', adjustments = []\<rparr>
           | Some tree \<Rightarrow>
               (let adjs = run_checks a tree html topic;
                    total = base_score a + sum_list (map fst adjs)
                in \<lparr>score = max 0 (min 100 total), reason = summarize a adjs,
                     adjustments = adjs\<rparr>))"

subsection \<open>Sample inputs\<close>

text \<open>A standard library without the validation of bracketed hosts.\<close>

definition accept_any_host :: "string \<Rightarrow> bool" where
  "accept_any_host h = True"

text \<open>
  A runtime in which every library is present and answers, and a page whose extracted
  text is short.
\<close>

definition sample_textstat :: textstat_lib where
  "sample_textstat =
     \<lparr>set_lang = (\<lambda>l. Inr ()), flesch_reading_ease = (\<lambda>t. Inr 45), flesch_kincaid_grade = (\<lambda>t. Inr 9),
      gunning_fog = (\<lambda>t. Inr 11), automated_readability_index = (\<lambda>t. Inr 10),
      coleman_liau_index = (\<lambda>t. Inr 12)\<rparr>"

definition sample_runtime :: runtime where
  "sample_runtime =
     \<lparr>IDEADENSITY_AVAILABLE = True,
      cpidr = (\<lambda>t. Inr 0.8),
      depid = Some (\<lambda>t r. Inr (0.6, 10, [])),
      TEXTSTAT_AVAILABLE = True,
      textstat = Some sample_textstat,
      environ = (\<lambda>name. None),
      http_get = (\<lambda>u. Inr ''<html><title>T</title><body>Short content</body></html>''),
      trafilatura_extract = (\<lambda>h. Inr (Some ''Short content'')),
      trafilatura_extract_metadata = (\<lambda>h. Inr None),
      check_bracketed_host = accept_any_host\<rparr>"

text \<open>The same runtime with an extractor that raises.\<close>

definition failing_runtime :: runtime where
  "failing_runtime = sample_runtime\<lparr>trafilatura_extract := (\<lambda>h. Inl ''boom'')\<rparr>"

text \<open>
  The pages of the repository's tests \<open>test_calculate_structure_score_short_html\<close> (31
  characters) and \<open>test_calculate_structure_score_parse_error\<close> (29 characters), and a
  malformed page of 115 characters.
\<close>

definition short_page :: string where
  "short_page = ''<html><body>Short</body></html>''"

definition malformed_page :: string where
  "malformed_page = ''<html><unclosed><tags>content''"

definition long_malformed_page :: string where
  "long_malformed_page =
     ''<html><unclosed><tags>content that goes on long enough to pass the length guard '' @
     ''of the analyzer but is never closed''"


section \<open>Properties\<close>

subsection \<open>Domain extraction\<close>

lemmas extract_domain_defs =
  extract_domain_def urlparse_netloc_def split_scheme_def py_replace_def scheme_char_def
  is_ascii_alpha_def py_isdigit_def Let_def

lemma extract_domain_strips_www:
  "extract_domain vh ''https://www.example.com/x'' = ''example.com''"
  by (simp add: extract_domain_defs)

lemma extract_domain_parse_failure:
  "extract_domain vh ''http://[::1/x'' = ''unknown''"
  by (simp add: extract_domain_defs)

text \<open>
  C2. Domain extraction takes the network location of the parsed URL and removes
  \<open>www.\<close>; the claim expects \<open>"unknown"\<close> for the input \<open>"not-a-url"\<close>, as the
  repository's test \<open>test_extract_domain_invalid_url\<close> does. The URL parser does not
  fail on that input: it has neither a scheme nor a leading \<open>//\<close>, so its network location
  is empty, and the function returns the empty string, not \<open>"unknown"\<close>.
\<close>

theorem extract_domain_not_a_url:
  "extract_domain vh ''not-a-url'' = [] \<and> extract_domain vh ''not-a-url'' \<noteq> ''unknown''"
  by (simp add: extract_domain_defs)

subsection \<open>Metric adapters\<close>

lemma py_strip_short_text: "py_strip ''  Short text  '' = ''Short text''"
  by (simp add: py_strip_def py_isspace_def)

text \<open>
  C4. For every text that is empty or whose stripped length is below 50, whatever the
  state of the libraries: \<open>calculate_density\<close> returns \<open>0.0\<close>, \<open>calculate_depid_density\<close>
  returns \<open>None\<close> and \<open>calculate_readability_scores\<close> returns the empty dictionary.
\<close>

theorem adapters_short_circuit:
  assumes "text = [] \<or> length (py_strip text) < 50"
  shows "calculate_density rt text = 0.0 \<and> calculate_depid_density rt text = None \<and>
         calculate_readability_scores rt text = []"
  using assms
  by (auto simp: calculate_density_def calculate_depid_density_def
        calculate_readability_scores_def)

theorem adapters_short_circuit_witness:
  "(''  Short text  '' = [] \<or> length (py_strip ''  Short text  '') < 50) \<and>
   calculate_density sample_runtime ''  Short text  '' = 0.0 \<and>
   calculate_depid_density sample_runtime ''  Short text  '' = None \<and>
   calculate_readability_scores sample_runtime ''  Short text  '' = []"
proof -
  have h: "''  Short text  '' = [] \<or> length (py_strip ''  Short text  '') < 50"
    by (simp add: py_strip_short_text)
  show ?thesis
    using h adapters_short_circuit [OF h, of sample_runtime] by simp
qed

subsection \<open>Signal scorer\<close>

lemma factor6_vocab_returns: "\<exists>r. factor6_vocab content s = Inr r"
proof (cases "py_split (py_lower content) = []")
  case True
  then show ?thesis by (simp add: factor6_vocab_def)
next
  case False
  then have "real (length (py_split (py_lower content))) \<noteq> 0" by simp
  then show ?thesis by (simp add: factor6_vocab_def py_truediv_def Let_def)
qed

text \<open>
  C5. For all contents, URLs and titles, the empty strings included,
  \<open>_calculate_signal_score\<close> returns (the guarded division never raises) and its result
  lies in the interval from 0 to 1.
\<close>

theorem signal_score_total_and_bounded:
  "\<exists>r. calculate_signal_score vh content url title = Inr r \<and> 0 \<le> r \<and> r \<le> 1"
proof -
  obtain s where
    "factor6_vocab content (factor5_spam content (factor4_refs content
       (factor3_code content (factor2_domain vh url (factor1_length content 0.5))))) = Inr s"
    using factor6_vocab_returns by blast
  then show ?thesis
    by (simp add: calculate_signal_score_def Let_def)
qed

lemma signal_score_empty_input: "calculate_signal_score accept_any_host [] [] [] = Inr 0.35"
  by (simp add: calculate_signal_score_def factor1_length_def factor2_domain_def
        factor3_code_def factor4_refs_def factor5_spam_def factor6_vocab_def
        factor7_structure_def py_split_def py_lower_def Let_def extract_domain_defs
        HIGH_TRUST_DOMAINS_def code_re_def ref_re_def structural_re_def SPAM_PATTERNS_def
        phrase_def ws1_def)

theorem signal_score_total_and_bounded_witness:
  "\<exists>r. calculate_signal_score accept_any_host [] [] [] = Inr r \<and> 0 \<le> r \<and> r \<le> 1"
  using signal_score_total_and_bounded [of accept_any_host "[]" "[]" "[]"] by simp

lemma py_split_short_content: "length (py_split ''Short content'') = 2"
  by (simp add: py_split_def py_isspace_def)

lemma extract_domain_two_trusted:
  "extract_domain accept_any_host ''https://github.com.arxiv.org/abs/1'' = ''github.com.arxiv.org''"
  by (simp add: extract_domain_defs)

lemma domain_loop_find:
  "domain_loop ds dm s =
     (case find (\<lambda>(d, b). py_contains d dm) ds of None \<Rightarrow> s | Some (d, b) \<Rightarrow> s * b)"
  by (induction ds) auto

lemma length_delta: "score_after_length content = 0.5 + factor1_length content 0"
  by (simp add: score_after_length_def factor1_length_def Let_def)

lemma score_after_domain_find:
  "score_after_domain vh content url =
     (case find (\<lambda>(d, b). py_contains d (extract_domain vh url)) HIGH_TRUST_DOMAINS of
        None \<Rightarrow> score_after_length content
      | Some (d, b) \<Rightarrow> score_after_length content * b)"
  by (simp only: score_after_domain_def factor2_domain_def domain_loop_find)

lemma signal_score_staged:
  "calculate_signal_score vh content url title =
     and_then (factor6_vocab content (factor5_spam content (factor4_refs content
               (factor3_code content (score_after_domain vh content url)))))
       (\<lambda>s. Inr (max 0 (min 1 (factor7_structure content s))))"
  by (simp add: calculate_signal_score_def score_after_domain_def score_after_length_def
        and_then_def Let_def split: sum.splits)

text \<open>
  C8. The running score after the length factor is 0.5 plus the length delta. The domain
  factor takes the first entry of \<open>HIGH_TRUST_DOMAINS\<close>, in the order of the declaration,
  whose name occurs in the domain, and multiplies that running score, not the base 0.5, by
  the entry's factor; no other entry is applied, and without such an entry the score is
  unchanged. The remaining factors and the clamp work on the result.
\<close>

theorem domain_boost_on_running_score:
  "score_after_length content = 0.5 + factor1_length content 0 \<and>
   score_after_domain vh content url =
     (case find (\<lambda>(d, b). py_contains d (extract_domain vh url)) HIGH_TRUST_DOMAINS of
        None \<Rightarrow> score_after_length content
      | Some (d, b) \<Rightarrow> score_after_length content * b) \<and>
   calculate_signal_score vh content url title =
     and_then (factor6_vocab content (factor5_spam content (factor4_refs content
               (factor3_code content (score_after_domain vh content url)))))
       (\<lambda>s. Inr (max 0 (min 1 (factor7_structure content s))))"
  using length_delta score_after_domain_find signal_score_staged by blast

text \<open>
  An instance: a two-word text on a host that contains both \<open>github.com\<close> and \<open>arxiv.org\<close>.
  The running score 0.35 is multiplied by 1.15, the factor of the entry declared first;
  boosting the base would have given 0.5 * 1.15 - 0.15 = 0.425.
\<close>

theorem domain_boost_on_running_score_witness:
  "score_after_length ''Short content'' = 0.35 \<and>
   score_after_domain accept_any_host ''Short content'' ''https://github.com.arxiv.org/abs/1''
     = 0.35 * 1.15"
  using domain_boost_on_running_score
          [of "''Short content''" accept_any_host "''https://github.com.arxiv.org/abs/1''" "[]"]
  by (simp add: factor1_length_def py_split_short_content extract_domain_two_trusted
        HIGH_TRUST_DOMAINS_def)

lemma boosts_exceed_one: "\<forall>(d, b) \<in> set HIGH_TRUST_DOMAINS. 1 < b"
  by (simp add: HIGH_TRUST_DOMAINS_def)

lemma domain_loop_mono:
  "\<forall>(d, b) \<in> set ds. 1 < b \<Longrightarrow> 0 \<le> s \<Longrightarrow> s \<le> domain_loop ds dm s"
proof (induction ds)
  case Nil
  then show ?case by simp
next
  case (Cons p ds)
  obtain d b where p: "p = (d, b)" by (cases p)
  with Cons.prems have "1 < b" by simp
  with Cons.prems(2) have "s * 1 \<le> s * b"
    by (intro mult_left_mono) simp_all
  with Cons p show ?case by simp
qed

lemma score_after_length_lower: "0.35 \<le> score_after_length content"
  by (simp add: score_after_length_def factor1_length_def Let_def)

text \<open>
  C10. The domain factor never lowers the score: the running score before it is at least
  0.35 (0.5 minus the largest length penalty 0.15), hence positive, every configured
  factor exceeds 1, and the running score after it is at least the one before.
\<close>

theorem domain_boost_never_lowers:
  "0.35 \<le> score_after_length content \<and>
   (\<forall>(d, b) \<in> set HIGH_TRUST_DOMAINS. 1 < b) \<and>
   score_after_length content \<le> score_after_domain vh content url"
proof -
  have a: "0.35 \<le> score_after_length content"
    by (rule score_after_length_lower)
  then have "0 \<le> score_after_length content" by simp
  then have "score_after_length content \<le> score_after_domain vh content url"
    unfolding score_after_domain_def factor2_domain_def
    by (rule domain_loop_mono [OF boosts_exceed_one])
  with a boosts_exceed_one show ?thesis by blast
qed

theorem domain_boost_never_lowers_witness:
  "0.35 \<le> score_after_length ''Short content'' \<and>
   score_after_length ''Short content''
     \<le> score_after_domain accept_any_host ''Short content'' ''https://arxiv.org/abs/1''"
  using domain_boost_never_lowers
          [of "''Short content''" accept_any_host "''https://arxiv.org/abs/1''"]
  by simp

subsection \<open>Float arithmetic\<close>

lemma normalise_up:
  "0 < m \<Longrightarrow> 2 ^ 52 \<le> m * 2 ^ k \<Longrightarrow> m * 2 ^ k < 2 ^ 53 \<Longrightarrow>
   normalise (k + j) m u = (m * 2 ^ k, u / 2 ^ k)"
proof (induction k arbitrary: m u)
  case 0
  then show ?case by (cases j) simp_all
next
  case (Suc k)
  have lt: "m < 2 ^ 52"
  proof -
    have "m * 2 \<le> m * 2 ^ Suc k"
      using Suc.prems(1) by simp
    with Suc.prems(3) have "m * 2 < 2 ^ 53" by linarith
    then show ?thesis by simp
  qed
  then have "\<not> 2 ^ 53 \<le> m" by simp
  moreover have "normalise (k + j) (m * 2) (u / 2) = (m * 2 * 2 ^ k, u / 2 / 2 ^ k)"
    using Suc.prems by (intro Suc.IH) (simp_all add: mult.assoc)
  ultimately show ?case using lt by (simp add: mult.assoc)
qed

text \<open>A positive number that \<open>k\<close> doublings bring into the interval is rounded there.\<close>

lemma binary64_small:
  assumes "0 < x" and "k \<le> 2200" and "2 ^ 52 \<le> x * 2 ^ k" and "x * 2 ^ k < 2 ^ 53"
  shows "binary64 x = of_int (round_half_even (x * 2 ^ k)) / 2 ^ k"
proof -
  obtain j where j: "2200 = k + j"
    using assms(2) by (metis le_Suc_ex)
  have "normalise 2200 \<bar>x\<bar> 1 = (x * 2 ^ k, 1 / 2 ^ k)"
    unfolding j using assms by (simp add: normalise_up)
  with assms(1) show ?thesis by (simp add: binary64_def)
qed

lemmas binary64_eval =
  binary64_small [where k = 52] binary64_small [where k = 53]
  binary64_small [where k = 54] binary64_small [where k = 55]

text \<open>The literals \<open>0.3\<close> and \<open>0.2\<close> are not binary64 numbers; \<open>0.5\<close> is.\<close>

lemma binary64_literals:
  "binary64 0.5 = 0.5" "binary64 0.3 = 5404319552844595 / 2 ^ 54"
  "binary64 0.2 = 7205759403792794 / 2 ^ 55"
  by (simp_all add: binary64_eval round_half_even_def Let_def)

text \<open>
  The weight that survives when depid and readability are both missing, with the default
  weights: \<open>((0.5 + 0.3 + 0.2) - 0.3) - 0.2\<close> is \<open>0.49999999999999994\<close> in binary64.
\<close>

lemma binary64_surviving_weight:
  "binary64 (binary64 (binary64 (binary64 (binary64 0.5 + binary64 0.3) + binary64 0.2)
     - binary64 0.3) - binary64 0.2) = 1 / 2 - 1 / 2 ^ 54"
  by (simp add: binary64_eval round_half_even_def Let_def)

subsection \<open>Density combiner\<close>

lemmas combined_density_defs =
  calculate_combined_density_def calculate_combined_density_fl_def and_then_def
  getenv_float_def Let_def

lemma combined_density_reads_weights_only:
  assumes "environ rt2 ''CPIDR_WEIGHT'' = environ rt ''CPIDR_WEIGHT''"
    and "environ rt2 ''DEPID_WEIGHT'' = environ rt ''DEPID_WEIGHT''"
    and "environ rt2 ''READABILITY_WEIGHT'' = environ rt ''READABILITY_WEIGHT''"
  shows "calculate_combined_density_fl fl rt2 c d r = calculate_combined_density_fl fl rt c d r"
  using assms by (simp add: calculate_combined_density_fl_def getenv_float_def)

lemma combined_density_default_bounded:
  assumes "environ rt ''CPIDR_WEIGHT'' = None" and "environ rt ''DEPID_WEIGHT'' = None"
    and "environ rt ''READABILITY_WEIGHT'' = None"
    and "0 \<le> c" and "c \<le> 1"
  shows "\<exists>v. calculate_combined_density_fl fl rt c d r = Inr v \<and> 0 \<le> v \<and> v \<le> 1"
  using assms
  by (cases d; cases "if r \<noteq> [] then map_of r ''flesch_reading_ease'' else None")
     (simp_all add: calculate_combined_density_fl_def and_then_def getenv_float_def Let_def)

text \<open>
  C7. With the default weights 0.5, 0.3 and 0.2 (none of the three variables is set), for
  every cpidr in [0,1], every optional depid in [0,1] and every readability dictionary,
  \<open>calculate_combined_density\<close> returns a value in [0,1], in exact arithmetic, in binary64
  and under any other rounding \<open>fl\<close>; and the value is determined by the three arguments:
  two runtimes with the default weights give the same result.
\<close>

theorem combined_density_bounded:
  assumes "environ rt ''CPIDR_WEIGHT'' = None" and "environ rt ''DEPID_WEIGHT'' = None"
    and "environ rt ''READABILITY_WEIGHT'' = None"
    and "environ rt2 ''CPIDR_WEIGHT'' = None" and "environ rt2 ''DEPID_WEIGHT'' = None"
    and "environ rt2 ''READABILITY_WEIGHT'' = None"
    and "0 \<le> c" and "c \<le> 1"
    and "case d of None \<Rightarrow> True | Some x \<Rightarrow> 0 \<le> x \<and> x \<le> 1"
  shows "(\<exists>v. calculate_combined_density_fl fl rt c d r = Inr v \<and> 0 \<le> v \<and> v \<le> 1) \<and>
         calculate_combined_density_fl fl rt2 c d r = calculate_combined_density_fl fl rt c d r"
proof
  show "\<exists>v. calculate_combined_density_fl fl rt c d r = Inr v \<and> 0 \<le> v \<and> v \<le> 1"
    using assms(1-3,7,8) by (rule combined_density_default_bounded)
  show "calculate_combined_density_fl fl rt2 c d r = calculate_combined_density_fl fl rt c d r"
    using assms(1-6) by (intro combined_density_reads_weights_only) simp_all
qed

lemma combined_density_sample:
  "calculate_combined_density sample_runtime 0.8 (Some 0.6) [(''flesch_reading_ease'', 45)]
     = Inr 0.68"
  by (simp add: combined_density_defs exact_def sample_runtime_def)

theorem combined_density_bounded_witness:
  "calculate_combined_density sample_runtime 0.8 (Some 0.6) [(''flesch_reading_ease'', 45)]
     = Inr 0.68 \<and>
   calculate_combined_density failing_runtime 0.8 (Some 0.6) [(''flesch_reading_ease'', 45)]
     = calculate_combined_density sample_runtime 0.8 (Some 0.6) [(''flesch_reading_ease'', 45)]"
proof -
  have e: "environ sample_runtime ''CPIDR_WEIGHT'' = None"
    "environ sample_runtime ''DEPID_WEIGHT'' = None"
    "environ sample_runtime ''READABILITY_WEIGHT'' = None"
    "environ failing_runtime ''CPIDR_WEIGHT'' = None"
    "environ failing_runtime ''DEPID_WEIGHT'' = None"
    "environ failing_runtime ''READABILITY_WEIGHT'' = None"
    by (simp_all add: sample_runtime_def failing_runtime_def)
  have c: "(0::real) \<le> 0.8" "(0.8::real) \<le> 1" by simp_all
  have d: "case Some (0.6::real) of None \<Rightarrow> True | Some x \<Rightarrow> 0 \<le> x \<and> x \<le> 1"
    by simp
  show ?thesis
    using combined_density_bounded [OF e c d, of exact "[(''flesch_reading_ease'', 45)]"]
      combined_density_sample
    by (simp add: calculate_combined_density_def)
qed

text \<open>
  C6, as the code has it. With the default weights, depid absent and no
  \<open>flesch_reading_ease\<close> in the dictionary, the combiner does not reach its fallback
  \<open>return cpidr_density\<close> as long as the surviving weight
  \<open>((0.5 + 0.3 + 0.2) - 0.3) - 0.2\<close> is positive: it returns the quotient of
  \<open>cpidr * 0.5\<close> by that weight, clamped to [0,1]. In exact arithmetic the weight is 0.5
  and the result is cpidr unchanged, for every cpidr in [0,1].
\<close>

theorem combined_density_degenerate:
  assumes "environ rt ''CPIDR_WEIGHT'' = None" and "environ rt ''DEPID_WEIGHT'' = None"
    and "environ rt ''READABILITY_WEIGHT'' = None"
    and "0 \<le> c" and "c \<le> 1" and "map_of r ''flesch_reading_ease'' = None"
  shows "calculate_combined_density_fl fl rt c None r =
           (let w = fl (fl (fl (fl (fl 0.5 + fl 0.3) + fl 0.2) - fl 0.3) - fl 0.2) in
            if w > 0 then Inr (max 0 (min 1 (fl (fl (c * fl 0.5) / w)))) else Inr c) \<and>
         calculate_combined_density rt c None r = Inr c"
  using assms by (simp add: combined_density_defs exact_def)

theorem combined_density_degenerate_witness:
  "calculate_combined_density sample_runtime 0.5 None [] = Inr 0.5"
proof -
  have e: "environ sample_runtime ''CPIDR_WEIGHT'' = None"
    "environ sample_runtime ''DEPID_WEIGHT'' = None"
    "environ sample_runtime ''READABILITY_WEIGHT'' = None"
    by (simp_all add: sample_runtime_def)
  have c: "(0::real) \<le> 0.5" "(0.5::real) \<le> 1" by simp_all
  have r: "map_of ([] :: (string \<times> real) list) ''flesch_reading_ease'' = None" by simp
  show ?thesis
    using combined_density_degenerate [OF e c r] by simp
qed

text \<open>
  In binary64 the surviving weight is \<open>0.49999999999999994\<close>, and for cpidr = 0.5 the
  code returns \<open>0.25 / 0.49999999999999994\<close>, which rounds to the binary64 number after
  0.5, \<open>0.5000000000000001\<close>: cpidr is not returned unchanged.
\<close>

theorem binary64_degenerate_not_identity:
  "calculate_combined_density_fl binary64 sample_runtime 0.5 None [] = Inr (0.5 + 1 / 2 ^ 53) \<and>
   calculate_combined_density_fl binary64 sample_runtime 0.5 None [] \<noteq> Inr 0.5"
proof -
  have e: "environ sample_runtime ''CPIDR_WEIGHT'' = None"
    "environ sample_runtime ''DEPID_WEIGHT'' = None"
    "environ sample_runtime ''READABILITY_WEIGHT'' = None"
    by (simp_all add: sample_runtime_def)
  have "calculate_combined_density_fl binary64 sample_runtime 0.5 None []
      = Inr (0.5 + 1 / 2 ^ 53)"
    using e
    by (simp add: calculate_combined_density_fl_def and_then_def getenv_float_def Let_def
          binary64_eval round_half_even_def)
  then show ?thesis by simp
qed

subsection \<open>Orchestrator\<close>

lemma keys_error_response:
  "keys (error_response vh url msg)
     = [''url'', ''title'', ''content'', ''source'', ''length'', ''signal_score'',
        ''density_score'', ''error'']"
  by (simp add: keys_def error_response_def)

lemma keys_success_report:
  "keys (success_report vh url t ex s c d rs)
     = [''url'', ''title'', ''content'', ''source'', ''length'', ''signal_score'',
        ''density_score'', ''depid_density'', ''readability_score'']"
  by (simp add: keys_def success_report_def)

lemma well_formed_error: "well_formed (error_response vh url msg)"
  by (simp add: well_formed_def has_str_def has_int_def has_float_def error_response_def)

lemma well_formed_success: "well_formed (success_report vh url t ex s c d rs)"
  by (simp add: well_formed_def has_str_def has_int_def has_float_def success_report_def)

lemma score_page_cases:
  "(\<exists>e. score_page rt url html ex = Inl e) \<or>
   (\<exists>t s c d rs. score_page rt url html ex
        = Inr (success_report (check_bracketed_host rt) url t ex s c d rs))"
proof (cases "score_page rt url html ex")
  case (Inl e)
  then show ?thesis by blast
next
  case (Inr r)
  then have "r = success_report (check_bracketed_host rt) url
      (case projr (trafilatura_extract_metadata rt html) of
         Some t \<Rightarrow> t | None \<Rightarrow> extract_title_fallback html)
      ex
      (projr (calculate_signal_score (check_bracketed_host rt) ex url
         (str_or (case projr (trafilatura_extract_metadata rt html) of
                    Some t \<Rightarrow> t | None \<Rightarrow> extract_title_fallback html) [])))
      (calculate_density rt ex) (calculate_depid_density rt ex)
      (calculate_readability_scores rt ex)"
    by (auto simp: score_page_def and_then_def Let_def split: sum.splits)
  with Inr show ?thesis by blast
qed

lemma extract_attempt_cases:
  "(\<exists>e. extract_attempt rt url = Inl e) \<or>
   (\<exists>msg. extract_attempt rt url = Inr (error_response (check_bracketed_host rt) url msg)) \<or>
   (\<exists>t ex s c d rs. extract_attempt rt url
        = Inr (success_report (check_bracketed_host rt) url t ex s c d rs))"
proof (cases "fetch_page rt url")
  case None
  then have "extract_attempt rt url
      = Inr (error_response (check_bracketed_host rt) url ''Failed to fetch page'')"
    by (simp add: extract_attempt_def)
  then show ?thesis by blast
next
  case (Some html)
  show ?thesis
  proof (cases "html = []")
    case True
    with Some have "extract_attempt rt url
        = Inr (error_response (check_bracketed_host rt) url ''Failed to fetch page'')"
      by (simp add: extract_attempt_def)
    then show ?thesis by blast
  next
    case False
    show ?thesis
    proof (cases "trafilatura_extract rt html")
      case (Inl e)
      with Some False show ?thesis
        by (simp add: extract_attempt_def and_then_def)
    next
      case (Inr ex)
      show ?thesis
      proof (cases "ex = None \<or> ex = Some []")
        case True
        with Some False Inr have "extract_attempt rt url
            = Inr (error_response (check_bracketed_host rt) url ''No content extracted'')"
          by (auto simp: extract_attempt_def and_then_def)
        then show ?thesis by blast
      next
        case no_early_return: False
        then obtain x where "ex = Some x" and "x \<noteq> []"
          by (cases ex) auto
        with Some False Inr have "extract_attempt rt url = score_page rt url html x"
          by (simp add: extract_attempt_def and_then_def)
        with score_page_cases [of rt url html x] show ?thesis by metis
      qed
    qed
  qed
qed

lemma extract_from_url_cases:
  "(\<exists>msg. extract_from_url rt url = Inr (error_response (check_bracketed_host rt) url msg)) \<or>
   (\<exists>t ex s c d rs. extract_from_url rt url
        = Inr (success_report (check_bracketed_host rt) url t ex s c d rs))"
proof (cases "extract_attempt rt url")
  case (Inl e)
  then have "extract_from_url rt url = Inr (error_response (check_bracketed_host rt) url e)"
    by (simp add: extract_from_url_def)
  then show ?thesis by blast
next
  case (Inr r)
  then have "extract_from_url rt url = extract_attempt rt url"
    by (simp add: extract_from_url_def)
  with Inr extract_attempt_cases [of rt url] show ?thesis by auto
qed

lemma fetch_failure_report:
  assumes "fetch_page rt url = None \<or> fetch_page rt url = Some []"
  shows "extract_from_url rt url
           = Inr (error_response (check_bracketed_host rt) url ''Failed to fetch page'')"
  using assms by (auto simp: extract_from_url_def extract_attempt_def)

lemma no_content_report:
  assumes "fetch_page rt url = Some html" and "html \<noteq> []"
    and "trafilatura_extract rt html = Inr None \<or> trafilatura_extract rt html = Inr (Some [])"
  shows "extract_from_url rt url
           = Inr (error_response (check_bracketed_host rt) url ''No content extracted'')"
  using assms by (auto simp: extract_from_url_def extract_attempt_def and_then_def)

lemma fault_report:
  assumes "extract_attempt rt url = Inl e"
  shows "extract_from_url rt url = Inr (error_response (check_bracketed_host rt) url e)"
  using assms by (simp add: extract_from_url_def)

lemma failing_runtime_attempt:
  "extract_attempt failing_runtime ''https://www.example.com/a'' = Inl ''boom''"
  by (simp add: extract_attempt_def fetch_page_def and_then_def failing_runtime_def
        sample_runtime_def)

text \<open>
  C3. For every URL and every behaviour of the libraries, \<open>extract_from_url\<close> returns a
  report and raises nothing, and the report is well formed. A failed fetch gives the
  degraded report with the error "Failed to fetch page", an empty extraction the one with
  "No content extracted", and an exception raised anywhere in the body the one whose error
  is the text of the exception.
\<close>

theorem extract_from_url_never_raises:
  "(\<exists>r. extract_from_url rt url = Inr r \<and> well_formed r) \<and>
   (fetch_page rt url = None \<or> fetch_page rt url = Some [] \<longrightarrow>
      extract_from_url rt url
        = Inr (error_response (check_bracketed_host rt) url ''Failed to fetch page'')) \<and>
   (\<forall>html. fetch_page rt url = Some html \<and> html \<noteq> [] \<and>
        (trafilatura_extract rt html = Inr None \<or> trafilatura_extract rt html = Inr (Some []))
        \<longrightarrow> extract_from_url rt url
              = Inr (error_response (check_bracketed_host rt) url ''No content extracted'')) \<and>
   (\<forall>e. extract_attempt rt url = Inl e \<longrightarrow>
        extract_from_url rt url = Inr (error_response (check_bracketed_host rt) url e) \<and>
        map_of (error_response (check_bracketed_host rt) url e) ''error'' = Some (PStr e))"
proof (intro conjI allI impI)
  show "\<exists>r. extract_from_url rt url = Inr r \<and> well_formed r"
    using extract_from_url_cases [of rt url] well_formed_error well_formed_success
    by metis
next
  assume "fetch_page rt url = None \<or> fetch_page rt url = Some []"
  then show "extract_from_url rt url
      = Inr (error_response (check_bracketed_host rt) url ''Failed to fetch page'')"
    by (rule fetch_failure_report)
next
  fix html
  assume "fetch_page rt url = Some html \<and> html \<noteq> [] \<and>
    (trafilatura_extract rt html = Inr None \<or> trafilatura_extract rt html = Inr (Some []))"
  then show "extract_from_url rt url
      = Inr (error_response (check_bracketed_host rt) url ''No content extracted'')"
    using no_content_report by blast
next
  fix e
  assume "extract_attempt rt url = Inl e"
  then show "extract_from_url rt url = Inr (error_response (check_bracketed_host rt) url e)"
    by (rule fault_report)
next
  fix e
  show "map_of (error_response (check_bracketed_host rt) url e) ''error'' = Some (PStr e)"
    by (simp add: error_response_def)
qed

theorem extract_from_url_never_raises_witness:
  "extract_attempt failing_runtime ''https://www.example.com/a'' = Inl ''boom'' \<and>
   extract_from_url failing_runtime ''https://www.example.com/a''
     = Inr (error_response accept_any_host ''https://www.example.com/a'' ''boom'') \<and>
   well_formed (error_response accept_any_host ''https://www.example.com/a'' ''boom'')"
proof -
  have cbh: "check_bracketed_host failing_runtime = accept_any_host"
    by (simp add: failing_runtime_def sample_runtime_def)
  show ?thesis
    using extract_from_url_never_raises [of failing_runtime "''https://www.example.com/a''"]
      failing_runtime_attempt cbh
    by auto
qed

text \<open>
  C1, as the code has it. For every URL and message the degraded report has the keys
  \<open>url\<close>, \<open>title\<close>, \<open>content\<close>, \<open>source\<close>, \<open>length\<close>, \<open>signal_score\<close>, \<open>density_score\<close> and
  \<open>error\<close>: the keys of a successful report without \<open>depid_density\<close> and
  \<open>readability_score\<close>, and \<open>error\<close>. Its content is "Error: " followed by the message,
  its title is "Extraction Failed", its length is 0, both of its scores are 0.0 and
  \<open>error\<close> holds the message. It is what \<open>extract_from_url\<close> returns when its body raises.
\<close>

theorem error_response_shape:
  "keys (error_response vh url msg)
     = [''url'', ''title'', ''content'', ''source'', ''length'', ''signal_score'',
        ''density_score'', ''error''] \<and>
   keys (success_report vh url t ex s c d rs)
     = [''url'', ''title'', ''content'', ''source'', ''length'', ''signal_score'',
        ''density_score'', ''depid_density'', ''readability_score''] \<and>
   map_of (error_response vh url msg) ''url'' = Some (PStr url) \<and>
   map_of (error_response vh url msg) ''title'' = Some (PStr ''Extraction Failed'') \<and>
   map_of (error_response vh url msg) ''content'' = Some (PStr (''Error: '' @ msg)) \<and>
   map_of (error_response vh url msg) ''source'' = Some (PStr (extract_domain vh url)) \<and>
   map_of (error_response vh url msg) ''length'' = Some (PInt 0) \<and>
   map_of (error_response vh url msg) ''signal_score'' = Some (PFloat 0.0) \<and>
   map_of (error_response vh url msg) ''density_score'' = Some (PFloat 0.0) \<and>
   map_of (error_response vh url msg) ''error'' = Some (PStr msg) \<and>
   (extract_attempt rt url = Inl msg \<longrightarrow>
      extract_from_url rt url = Inr (error_response (check_bracketed_host rt) url msg))"
  by (simp add: keys_def error_response_def success_report_def fault_report)

theorem error_response_shape_witness:
  "extract_attempt failing_runtime ''https://www.example.com/a'' = Inl ''boom'' \<and>
   extract_from_url failing_runtime ''https://www.example.com/a''
     = Inr (error_response (check_bracketed_host failing_runtime)
              ''https://www.example.com/a'' ''boom'') \<and>
   map_of (error_response accept_any_host ''https://www.example.com/a'' ''boom'') ''content''
     = Some (PStr ''Error: boom'')"
  using error_response_shape
          [of accept_any_host "''https://www.example.com/a''" "''boom''" _ _ _ _ _ _
              failing_runtime]
    failing_runtime_attempt
  by simp

text \<open>
  The degraded report for the URL and the message of the repository's test
  \<open>test_error_response_structure\<close> has neither \<open>depid_density\<close> nor \<open>readability_score\<close>,
  which a successful report has: its keys are not those of a successful report and
  \<open>error\<close>.
\<close>

theorem error_response_keys_differ:
  "map_of (error_response accept_any_host ''https://example.com'' ''Test error'')
     ''depid_density'' = None \<and>
   map_of (error_response accept_any_host ''https://example.com'' ''Test error'')
     ''readability_score'' = None \<and>
   set (keys (error_response accept_any_host ''https://example.com'' ''Test error'')) \<noteq>
   set (keys (success_report accept_any_host ''https://example.com'' None ''text'' 0 0 None []))
     \<union> {''error''}"
proof -
  have a: "map_of (error_response accept_any_host ''https://example.com'' ''Test error'')
             ''depid_density'' = None"
    by (simp add: error_response_def)
  have b: "map_of (error_response accept_any_host ''https://example.com'' ''Test error'')
             ''readability_score'' = None"
    by (simp add: error_response_def)
  have c: "''depid_density'' \<notin>
      set (keys (error_response accept_any_host ''https://example.com'' ''Test error''))"
    by (simp add: keys_error_response)
  have d: "''depid_density'' \<in>
      set (keys (success_report accept_any_host ''https://example.com'' None ''text'' 0 0 None []))
        \<union> {''error''}"
    by (simp add: keys_success_report)
  from c d have "set (keys (error_response accept_any_host ''https://example.com'' ''Test error''))
      \<noteq> set (keys (success_report accept_any_host ''https://example.com'' None ''text'' 0 0
                        None [])) \<union> {''error''}"
    by metis
  with a b show ?thesis by blast
qed

subsection \<open>Structural analyzer\<close>

lemma sample_pages_length:
  "length short_page = 31" "length malformed_page = 29" "length long_malformed_page = 115"
  by (simp_all add: short_page_def malformed_page_def long_malformed_page_def)





text \<open>
  This does not depend on the threshold chosen: the tests expect the length guard to stop
  their short page of 31 characters, and every threshold that does so also stops their
  malformed page of 29 characters, for which they expect 30. In this model the two tests
  cannot both pass.
\<close>

lemma length_guard_stops_malformed_page:
  assumes "length short_page < min_length a"
  shows "score (calculate_structure_score a malformed_page topic) = 0"
proof -
  from assms have "length malformed_page < min_length a"
    by (simp add: sample_pages_length)
  then show ?thesis
    by (simp add: calculate_structure_score_def)
qed

end
